theory Spec2Isabelle
  imports Complex_Main
begin

section \<open>JavaScript numbers\<close>

text \<open>
  A JavaScript number is modelled as an exact real or \<open>NaN\<close>. Rounding of the binary64
  format, overflow to an infinity and the sign of zero are not part of the model: every
  statement below is about the exact values the program's arithmetic approximates.
\<close>

datatype number = Num real | NaN







subsection \<open>Printing a number\<close>








section \<open>The scale mapper (src/lib.ts)\<close>

definition SCALE_POWER :: real where
  "SCALE_POWER = 5 / 2"




text \<open>
  \<^verbatim>\<open>getValueFromScale = (value) => Math.pow(value, SCALE_POWER)\<close>.
  \<^verbatim>\<open>Math.pow\<close> of a negative base and the non-integer exponent 2.5 is \<open>NaN\<close>.
\<close>

definition getValueFromScale :: "number \<Rightarrow> number" where
  "getValueFromScale v =
     (case v of
        NaN \<Rightarrow> NaN
      | Num a \<Rightarrow> if a < 0 then NaN else Num (a powr SCALE_POWER))"

section \<open>Settings and the audio engine (index.tsx)\<close>

text \<open>
  The model follows the version of \<^verbatim>\<open>index.tsx\<close> whose \<^verbatim>\<open>Settings\<close> has the fields
  \<^verbatim>\<open>duration\<close> and \<^verbatim>\<open>loop\<close>. The version without them has the same file handler,
  the same sliders and the same \<^verbatim>\<open>init\<close> branch of the effect; after a load it merges
  no duration, and it pushes no loop flag. A \<^verbatim>\<open>File\<close> object is named by a string;
  as an object it is always truthy. The field \<^verbatim>\<open>file\<close> is written \<open>file'\<close>.
\<close>

datatype File = File string

datatype lifecycle = Init | Ready

record Settings =
  filterCutoff :: number
  file' :: "File option"
  duration :: "number option"
  nextFile :: "File option"
  speed :: number
  loop :: bool
  state :: lifecycle

definition FILTER_MAX :: number where
  "FILTER_MAX = Num 22000"

text \<open>
  \<^verbatim>\<open>Partial<Settings>\<close> is the list of the keys an object literal gives, each with its
  value; \<^verbatim>\<open>mergeSettings = (next) => (state) => ({...state, ...next})\<close> overwrites
  exactly these keys, a key given as \<^verbatim>\<open>undefined\<close> included.
\<close>

datatype assignment =
    FilterCutoff number
  | CurrentFile "File option"
  | Duration "number option"
  | NextFile "File option"
  | Speed number
  | Loop bool
  | State lifecycle

fun assign :: "assignment \<Rightarrow> Settings \<Rightarrow> Settings" where
  "assign (FilterCutoff v) s = s\<lparr>filterCutoff := v\<rparr>"
| "assign (CurrentFile f) s = s\<lparr>file' := f\<rparr>"
| "assign (Duration d) s = s\<lparr>duration := d\<rparr>"
| "assign (NextFile f) s = s\<lparr>nextFile := f\<rparr>"
| "assign (Speed v) s = s\<lparr>speed := v\<rparr>"
| "assign (Loop b) s = s\<lparr>loop := b\<rparr>"
| "assign (State l) s = s\<lparr>state := l\<rparr>"

definition mergeSettings :: "assignment list \<Rightarrow> Settings \<Rightarrow> Settings" where
  "mergeSettings next s = fold assign next s"

text \<open>The initial value given to \<^verbatim>\<open>useState<Settings>\<close>.\<close>

definition initialSettings :: Settings where
  "initialSettings =
     \<lparr>filterCutoff = FILTER_MAX, file' = None, duration = None, nextFile = None,
      speed = Num 1, loop = True, state = Init\<rparr>"




subsection \<open>The engine boundary\<close>

text \<open>
  The player, the filter and the waveform widget are objects of external libraries. The
  model keeps the parameters the program sets on them, the decoded source and its
  length, the transport state, and the log of the calls in the order the program makes
  them. \<^verbatim>\<open>new Tone.Player()\<close> starts stopped, with rate 1 and no loop;
  \<^verbatim>\<open>new Tone.Filter(settings.filterCutoff, "lowpass", -48)\<close> starts at the initial
  cutoff.
\<close>

datatype transport = Started | Stopped

datatype call =
    Chain
  | LoadBlob File
  | Stop
  | Load File
  | Start
  | FilterSet number
  | PlayerSet number bool

record Engine =
  chained :: bool
  frequency :: number
  playbackRate :: number
  playerLoop :: bool
  buffer :: "(File \<times> number) option"
  transport :: transport
  calls :: "call list"

definition initialEngine :: Engine where
  "initialEngine =
     \<lparr>chained = False, frequency = filterCutoff initialSettings, playbackRate = Num 1,
      playerLoop = False, buffer = None, transport = Stopped, calls = []\<rparr>"

definition player_chain :: "Engine \<Rightarrow> Engine" where
  "player_chain e = e\<lparr>chained := True, calls := calls e @ [Chain]\<rparr>"

definition waveform_loadBlob :: "File \<Rightarrow> Engine \<Rightarrow> Engine" where
  "waveform_loadBlob f e = e\<lparr>calls := calls e @ [LoadBlob f]\<rparr>"

definition player_stop :: "Engine \<Rightarrow> Engine" where
  "player_stop e = e\<lparr>transport := Stopped, calls := calls e @ [Stop]\<rparr>"

text \<open>\<^verbatim>\<open>player.load(url)\<close> is called; the promise it returns settles later.\<close>

definition player_load :: "File \<Rightarrow> Engine \<Rightarrow> Engine" where
  "player_load f e = e\<lparr>calls := calls e @ [Load f]\<rparr>"

text \<open>The load of \<open>f\<close> resolves: the player holds the decoded source, \<open>d\<close> seconds long.\<close>

definition load_resolved :: "File \<Rightarrow> number \<Rightarrow> Engine \<Rightarrow> Engine" where
  "load_resolved f d e = e\<lparr>buffer := Some (f, d)\<rparr>"

definition player_start :: "Engine \<Rightarrow> Engine" where
  "player_start e = e\<lparr>transport := Started, calls := calls e @ [Start]\<rparr>"

definition filter_set :: "number \<Rightarrow> Engine \<Rightarrow> Engine" where
  "filter_set v e = e\<lparr>frequency := v, calls := calls e @ [FilterSet v]\<rparr>"

definition player_set :: "number \<Rightarrow> bool \<Rightarrow> Engine \<Rightarrow> Engine" where
  "player_set r l e = e\<lparr>playbackRate := r, playerLoop := l, calls := calls e @ [PlayerSet r l]\<rparr>"

subsection \<open>The component state\<close>

text \<open>
  \<open>inflight\<close> holds the invocations of \<^verbatim>\<open>syncPlayerSettings\<close> suspended at
  \<^verbatim>\<open>await player.load(url)\<close>, each as the \<^verbatim>\<open>settings\<close> its closure captured and
  the file its \<^verbatim>\<open>url\<close> stands for.
  Handlers and effects are taken to close over the latest rendered \<^verbatim>\<open>settings\<close>: the
  component renders after every state update.
\<close>

record App =
  settings :: Settings
  engine :: Engine
  waveform :: bool
  inflight :: "(Settings \<times> File) list"

definition initialApp :: App where
  "initialApp =
     \<lparr>settings = initialSettings, engine = initialEngine, waveform = False, inflight = []\<rparr>"

text \<open>The state setter \<^verbatim>\<open>set(updater)\<close> of \<^verbatim>\<open>useState\<close>.\<close>

definition set_settings :: "(Settings \<Rightarrow> Settings) \<Rightarrow> App \<Rightarrow> App" where
  "set_settings f a = a\<lparr>settings := f (settings a)\<rparr>"

datatype error = Error string

subsection \<open>Handlers\<close>

text \<open>
  \<^verbatim>\<open>
  const file = onChange.currentTarget?.files?.[0]
  if (!file) throw new Error("missing file at upload time")
  set(mergeSettings({ nextFile: file }))
  \<close>
  The event is given as its \<^verbatim>\<open>currentTarget\<close> (or null), that as its \<^verbatim>\<open>files\<close>
  (or null).
\<close>

type_synonym ChangeEvent = "File list option option"

definition first_file :: "ChangeEvent \<Rightarrow> File option" where
  "first_file ev =
     (case ev of
        None \<Rightarrow> None
      | Some None \<Rightarrow> None
      | Some (Some []) \<Rightarrow> None
      | Some (Some (f # _)) \<Rightarrow> Some f)"

definition handleFileChange :: "ChangeEvent \<Rightarrow> App \<Rightarrow> error + App" where
  "handleFileChange ev a =
     (case first_file ev of
        None \<Rightarrow> Inl (Error ''missing file at upload time'')
      | Some f \<Rightarrow> Inr (set_settings (mergeSettings [NextFile (Some f)]) a))"

text \<open>A slider hands its handler one number, or an array of numbers.\<close>

datatype slider_value = Single number | Multiple "number list"

text \<open>
  \<^verbatim>\<open>
  if (Array.isArray(value)) throw new Error("single value required")
  set(mergeSettings({ speed: value }))
  \<close>
\<close>

definition onSpeedChange :: "slider_value \<Rightarrow> App \<Rightarrow> error + App" where
  "onSpeedChange v a =
     (case v of
        Multiple _ \<Rightarrow> Inl (Error ''single value required'')
      | Single x \<Rightarrow> Inr (set_settings (mergeSettings [Speed x]) a))"

text \<open>
  \<^verbatim>\<open>
  if (Array.isArray(value)) throw new Error("single value required")
  set(mergeSettings({ filterCutoff: getValueFromScale(value) }))
  \<close>
\<close>

definition onFilterChange :: "slider_value \<Rightarrow> App \<Rightarrow> error + App" where
  "onFilterChange v a =
     (case v of
        Multiple _ \<Rightarrow> Inl (Error ''single value required'')
      | Single x \<Rightarrow> Inr (set_settings (mergeSettings [FilterCutoff (getValueFromScale x)]) a))"

text \<open>The checkbox: \<^verbatim>\<open>set({...settings, loop: evt.currentTarget.checked})\<close>.\<close>

definition onLoopChange :: "bool \<Rightarrow> App \<Rightarrow> App" where
  "onLoopChange b a = set_settings (\<lambda>_. (settings a)\<lparr>loop := b\<rparr>) a"

text \<open>
  \<^verbatim>\<open>
  if (player.state === "started") { player.stop() } else { player.start(0) }
  \<close>
\<close>

definition handlePlayPauseToggle :: "App \<Rightarrow> App" where
  "handlePlayPauseToggle a =
     (if transport (engine a) = Started then a\<lparr>engine := player_stop (engine a)\<rparr>
      else a\<lparr>engine := player_start (engine a)\<rparr>)"

subsection \<open>The synchronization effect\<close>

text \<open>
  \<^verbatim>\<open>
  if (settings.state === "init") {
    player.chain(filter, comp, Tone.Destination)
    set((prev) => ({...prev, state: "ready"}))
    return
  }
  if (settings.nextFile) {
    waveform?.loadBlob(settings.nextFile)
    const url = URL.createObjectURL(settings.nextFile)
    player.stop()
    await player.load(url)
    player.start()
    set(mergeSettings({ file: settings.nextFile, nextFile: undefined,
                        duration: player.buffer.duration }))
  }
  filter.set({ frequency: settings.filterCutoff })
  player.set({ playbackRate: settings.speed, loop: settings.loop })
  \<close>
  The function is asynchronous. \<open>syncPlayerSettings\<close> runs it from the call to its end or
  to the \<^verbatim>\<open>await\<close>, where the invocation joins \<open>inflight\<close>; \<open>syncPlayerSettings_resume\<close>
  runs invocation \<open>i\<close> of \<open>inflight\<close> from the \<^verbatim>\<open>await\<close> on, once its load has
  settled. A rejected load makes the \<^verbatim>\<open>await\<close> throw, and nothing after it runs.
\<close>

definition push_parameters :: "Settings \<Rightarrow> Engine \<Rightarrow> Engine" where
  "push_parameters s e = player_set (speed s) (loop s) (filter_set (filterCutoff s) e)"

definition syncPlayerSettings :: "App \<Rightarrow> App" where
  "syncPlayerSettings a =
     (let s = settings a in
      if state s = Init
        then set_settings (\<lambda>prev. prev\<lparr>state := Ready\<rparr>) (a\<lparr>engine := player_chain (engine a)\<rparr>)
      else
        (case nextFile s of
           Some f \<Rightarrow>
             a\<lparr>engine :=
                  player_load f (player_stop
                    (if waveform a then waveform_loadBlob f (engine a) else engine a)),
               inflight := inflight a @ [(s, f)]\<rparr>
         | None \<Rightarrow> a\<lparr>engine := push_parameters s (engine a)\<rparr>))"

datatype outcome = Resolved number | Rejected

definition engine_duration :: "Engine \<Rightarrow> number option" where
  "engine_duration e = map_option snd (buffer e)"

definition syncPlayerSettings_resume :: "nat \<Rightarrow> outcome \<Rightarrow> App \<Rightarrow> App" where
  "syncPlayerSettings_resume i out a =
     (if i < length (inflight a) then
        (let (s, url) = inflight a ! i;
             rest = take i (inflight a) @ drop (Suc i) (inflight a)
         in case out of
              Rejected \<Rightarrow> a\<lparr>inflight := rest\<rparr>
            | Resolved d \<Rightarrow>
                (let e = player_start (load_resolved url d (engine a));
                     merged =
                       set_settings
                         (mergeSettings
                            [CurrentFile (nextFile s), NextFile None,
                             Duration (engine_duration e)])
                         a
                 in merged\<lparr>engine := push_parameters s e, inflight := rest\<rparr>))
      else a)"

subsection \<open>Events\<close>

text \<open>
  The component reacts to one event at a time: a handler called by the page, the creation
  of the waveform widget, an invocation of the effect, or the settling of a load in
  flight. A handler that throws leaves the state as it was.
\<close>

datatype event =
    FileChange ChangeEvent
  | LoopChange bool
  | SpeedChange slider_value
  | FilterChange slider_value
  | PlayPauseToggle
  | WaveformCreated
  | SyncEffect
  | LoadSettled nat outcome

definition keep_on_error :: "App \<Rightarrow> error + App \<Rightarrow> App" where
  "keep_on_error a r = (case r of Inl _ \<Rightarrow> a | Inr a' \<Rightarrow> a')"

fun step :: "event \<Rightarrow> App \<Rightarrow> App" where
  "step (FileChange ev) a = keep_on_error a (handleFileChange ev a)"
| "step (LoopChange b) a = onLoopChange b a"
| "step (SpeedChange v) a = keep_on_error a (onSpeedChange v a)"
| "step (FilterChange v) a = keep_on_error a (onFilterChange v a)"
| "step PlayPauseToggle a = handlePlayPauseToggle a"
| "step WaveformCreated a = a\<lparr>waveform := True\<rparr>"
| "step SyncEffect a = syncPlayerSettings a"
| "step (LoadSettled i out) a = syncPlayerSettings_resume i out a"

fun run :: "event list \<Rightarrow> App \<Rightarrow> App" where
  "run [] a = a"
| "run (e # es) a = run es (step e a)"


section \<open>Notions used in the statements\<close>



text \<open>The lifecycle flag before the first event of a trace and after each event.\<close>

fun lifecycles :: "event list \<Rightarrow> App \<Rightarrow> lifecycle list" where
  "lifecycles [] a = [state (settings a)]"
| "lifecycles (e # es) a = state (settings a) # lifecycles es (step e a)"

text \<open>The parameters of the engine are those of the settings \<open>s\<close>.\<close>

definition pushed :: "Settings \<Rightarrow> Engine \<Rightarrow> bool" where
  "pushed s e = (frequency e = filterCutoff s \<and> playbackRate e = speed s \<and> playerLoop e = loop s)"


lemmas handler_defs =
  handleFileChange_def keep_on_error_def set_settings_def mergeSettings_def
  onLoopChange_def onSpeedChange_def onFilterChange_def handlePlayPauseToggle_def

lemmas engine_defs =
  player_chain_def waveform_loadBlob_def player_stop_def player_load_def load_resolved_def
  player_start_def filter_set_def player_set_def push_parameters_def engine_duration_def

lemmas run_defs =
  initialApp_def initialSettings_def initialEngine_def FILTER_MAX_def
  syncPlayerSettings_def syncPlayerSettings_resume_def first_file_def Let_def

section \<open>Properties of the scale mapper\<close>









section \<open>Properties of humanFormat\<close>

















section \<open>Properties of the handlers and of the effect\<close>

text \<open>
  C9. Called with no file in the input element (no target, no file list or an empty one),
  \<open>handleFileChange\<close> raises the error \<open>missing file at upload time\<close> and nothing else
  happens: the settings, the engine and the loads in flight stay as they were. Called
  with a file, it sets \<open>nextFile\<close> to the first file and changes nothing else.
\<close>

theorem handleFileChange_cases:
  "(first_file ev = None \<longrightarrow>
      handleFileChange ev a = Inl (Error ''missing file at upload time'')
      \<and> step (FileChange ev) a = a)
   \<and> (first_file ev = Some f \<longrightarrow>
      handleFileChange ev a = Inr (a\<lparr>settings := (settings a)\<lparr>nextFile := Some f\<rparr>\<rparr>)
      \<and> step (FileChange ev) a = a\<lparr>settings := (settings a)\<lparr>nextFile := Some f\<rparr>\<rparr>)"
  by (simp add: handleFileChange_def keep_on_error_def set_settings_def mergeSettings_def)

theorem handleFileChange_cases_witness:
  "first_file None = None
   \<and> handleFileChange None initialApp = Inl (Error ''missing file at upload time'')
   \<and> step (FileChange None) initialApp = initialApp
   \<and> first_file (Some (Some [File ''a.wav'', File ''b.wav''])) = Some (File ''a.wav'')
   \<and> step (FileChange (Some (Some [File ''a.wav'', File ''b.wav'']))) initialApp
       = initialApp\<lparr>settings := (settings initialApp)\<lparr>nextFile := Some (File ''a.wav'')\<rparr>\<rparr>"
proof -
  have n: "first_file None = None"
    by (simp add: first_file_def)
  have f: "first_file (Some (Some [File ''a.wav'', File ''b.wav''])) = Some (File ''a.wav'')"
    by (simp add: first_file_def)
  from handleFileChange_cases [of None initialApp "File ''a.wav''"] n
       handleFileChange_cases
         [of "Some (Some [File ''a.wav'', File ''b.wav''])" initialApp "File ''a.wav''"] f
  show ?thesis by blast
qed

lemma step_state_other: "e \<noteq> SyncEffect \<Longrightarrow> state (settings (step e a)) = state (settings a)"
  by (cases e)
     (auto simp: handler_defs syncPlayerSettings_resume_def Let_def
           split: option.splits slider_value.splits outcome.splits prod.splits)

lemma step_state_effect: "state (settings (syncPlayerSettings a)) = Ready"
  by (cases "state (settings a)")
     (auto simp: syncPlayerSettings_def set_settings_def Let_def split: option.splits)

lemma step_state_ready: "state (settings a) = Ready \<Longrightarrow> state (settings (step e a)) = Ready"
  by (cases "e = SyncEffect") (simp_all add: step_state_effect step_state_other)

lemma lifecycles_ready:
  "state (settings a) = Ready \<Longrightarrow> lifecycles es a = replicate (Suc (length es)) Ready"
  by (induction es arbitrary: a) (simp_all add: step_state_ready)

lemma lifecycles_init:
  "state (settings a) = Init \<Longrightarrow>
   lifecycles es a =
     replicate (Suc (length (takeWhile (\<lambda>e. e \<noteq> SyncEffect) es))) Init
     @ replicate (length es - length (takeWhile (\<lambda>e. e \<noteq> SyncEffect) es)) Ready"
proof (induction es arbitrary: a)
  case Nil
  then show ?case by simp
next
  case (Cons e es)
  show ?case
  proof (cases "e = SyncEffect")
    case True
    then show ?thesis
      using Cons.prems lifecycles_ready [of "syncPlayerSettings a" es]
      by (simp add: step_state_effect)
  next
    case False
    then have "state (settings (step e a)) = Init"
      using Cons.prems by (simp add: step_state_other)
    from Cons.IH [OF this] False Cons.prems show ?thesis
      by simp
  qed
qed

text \<open>
  C3. Along every sequence of events from the initial state the lifecycle flag is \<open>Init\<close>
  up to the first invocation of the effect and \<open>Ready\<close> from then on: it changes exactly
  once if the effect is ever invoked, and never back. The invocation that finds
  \<open>Init\<close> chains the audio nodes, sets the flag and does nothing else, whatever file is
  pending; and from \<open>Ready\<close> no event leads to another value.
\<close>

theorem lifecycle_init_to_ready_once:
  "lifecycles es initialApp =
     replicate (Suc (length (takeWhile (\<lambda>e. e \<noteq> SyncEffect) es))) Init
     @ replicate (length es - length (takeWhile (\<lambda>e. e \<noteq> SyncEffect) es)) Ready
   \<and> (state (settings a) = Init \<longrightarrow>
        step SyncEffect a =
          a\<lparr>settings := (settings a)\<lparr>state := Ready\<rparr>,
            engine := (engine a)\<lparr>chained := True, calls := calls (engine a) @ [Chain]\<rparr>\<rparr>)
   \<and> (state (settings a) = Ready \<longrightarrow> state (settings (step e a)) = Ready)"
  by (simp add: lifecycles_init initialApp_def initialSettings_def step_state_ready
        syncPlayerSettings_def set_settings_def player_chain_def)

theorem lifecycle_init_to_ready_once_witness:
  "lifecycles [FileChange (Some (Some [File ''a.wav''])), SyncEffect, LoopChange False,
               SyncEffect, LoadSettled 0 (Resolved (Num 3))] initialApp
     = [Init, Init, Ready, Ready, Ready, Ready]
   \<and> state (settings (step (FileChange (Some (Some [File ''a.wav'']))) initialApp)) = Init
   \<and> inflight (step SyncEffect (step (FileChange (Some (Some [File ''a.wav'']))) initialApp)) = []
   \<and> calls (engine
        (step SyncEffect (step (FileChange (Some (Some [File ''a.wav'']))) initialApp))) = [Chain]
   \<and> state (settings (run [SyncEffect] initialApp)) = Ready
   \<and> state (settings (step (LoopChange False) (run [SyncEffect] initialApp))) = Ready"
proof -
  let ?a = "step (FileChange (Some (Some [File ''a.wav'']))) initialApp"
  have i: "state (settings ?a) = Init"
    by (simp add: run_defs handler_defs)
  have r: "state (settings (run [SyncEffect] initialApp)) = Ready"
    by (simp add: run_defs set_settings_def)
  note t1 = lifecycle_init_to_ready_once
    [of "[FileChange (Some (Some [File ''a.wav''])), SyncEffect, LoopChange False,
          SyncEffect, LoadSettled 0 (Resolved (Num 3))]" ?a "LoopChange False"]
  note t2 = lifecycle_init_to_ready_once [of "[]" "run [SyncEffect] initialApp" "LoopChange False"]
  have s: "step SyncEffect ?a =
          ?a\<lparr>settings := (settings ?a)\<lparr>state := Ready\<rparr>,
            engine := (engine ?a)\<lparr>chained := True, calls := calls (engine ?a) @ [Chain]\<rparr>\<rparr>"
    using t1 i by blast
  have c: "inflight ?a = [] \<and> calls (engine ?a) = []"
    by (simp add: run_defs handler_defs)
  have l: "lifecycles [FileChange (Some (Some [File ''a.wav''])), SyncEffect, LoopChange False,
               SyncEffect, LoadSettled 0 (Resolved (Num 3))] initialApp
     = [Init, Init, Ready, Ready, Ready, Ready]"
  proof -
    let ?es = "[FileChange (Some (Some [File ''a.wav''])), SyncEffect, LoopChange False,
               SyncEffect, LoadSettled 0 (Resolved (Num 3))]"
    have "lifecycles ?es initialApp =
        replicate (Suc (length (takeWhile (\<lambda>e. e \<noteq> SyncEffect) ?es))) Init
        @ replicate (length ?es - length (takeWhile (\<lambda>e. e \<noteq> SyncEffect) ?es)) Ready"
      by (rule t1 [THEN conjunct1])
    also have "\<dots> = [Init, Init, Ready, Ready, Ready, Ready]"
      by (simp add: numeral_eq_Suc)
    finally show ?thesis .
  qed
  have k: "state (settings (step (LoopChange False) (run [SyncEffect] initialApp))) = Ready"
    using t2 r by blast
  have c': "inflight (step SyncEffect ?a) = [] \<and> calls (engine (step SyncEffect ?a)) = [Chain]"
    unfolding s using c by simp
  show ?thesis
    using i r l k c' by blast
qed

text \<open>
  C4, as amended. An invocation of the effect in the \<open>Ready\<close> state that finds no pending
  file sets the filter frequency, the playback rate and the loop flag from its settings,
  whatever they were before. One that finds a pending file suspends at the load; when
  the load resolves, it sets the three parameters from the settings it captured when it
  began. (When the load is rejected nothing is set: see the counterexample.)
\<close>

theorem ready_invocation_pushes_parameters:
  "(state (settings a) = Ready \<and> nextFile (settings a) = None \<longrightarrow>
      pushed (settings a) (engine (step SyncEffect a))
      \<and> calls (engine (step SyncEffect a)) =
          calls (engine a)
          @ [FilterSet (filterCutoff (settings a)),
             PlayerSet (speed (settings a)) (loop (settings a))]
      \<and> inflight (step SyncEffect a) = inflight a)
   \<and> (state (settings a) = Ready \<and> nextFile (settings a) = Some f \<longrightarrow>
      inflight (step SyncEffect a) = inflight a @ [(settings a, f)])
   \<and> (i < length (inflight b) \<and> inflight b ! i = (s, f) \<longrightarrow>
      pushed s (engine (step (LoadSettled i (Resolved d)) b))
      \<and> calls (engine (step (LoadSettled i (Resolved d)) b)) =
          calls (engine b) @ [Start, FilterSet (filterCutoff s), PlayerSet (speed s) (loop s)])"
  by (simp add: syncPlayerSettings_def syncPlayerSettings_resume_def pushed_def Let_def
        engine_defs set_settings_def)

theorem ready_invocation_pushes_parameters_witness:
  "state (settings (run [SyncEffect, SpeedChange (Single (Num 2))] initialApp)) = Ready
   \<and> nextFile (settings (run [SyncEffect, SpeedChange (Single (Num 2))] initialApp)) = None
   \<and> pushed (settings (run [SyncEffect, SpeedChange (Single (Num 2))] initialApp))
        (engine (step SyncEffect (run [SyncEffect, SpeedChange (Single (Num 2))] initialApp)))
   \<and> state (settings (run [SyncEffect, FileChange (Some (Some [File ''a.wav'']))] initialApp))
       = Ready
   \<and> nextFile (settings (run [SyncEffect, FileChange (Some (Some [File ''a.wav'']))] initialApp))
       = Some (File ''a.wav'')
   \<and> inflight (step SyncEffect
        (run [SyncEffect, FileChange (Some (Some [File ''a.wav'']))] initialApp))
       = [(settings (run [SyncEffect, FileChange (Some (Some [File ''a.wav'']))] initialApp),
           File ''a.wav'')]
   \<and> pushed (settings (run [SyncEffect, FileChange (Some (Some [File ''a.wav'']))] initialApp))
        (engine (step (LoadSettled 0 (Resolved (Num 3)))
           (run [SyncEffect, FileChange (Some (Some [File ''a.wav''])), SyncEffect] initialApp)))"
  using ready_invocation_pushes_parameters
          [where a = "run [SyncEffect, SpeedChange (Single (Num 2))] initialApp"]
        ready_invocation_pushes_parameters
          [where a = "run [SyncEffect, FileChange (Some (Some [File ''a.wav'']))] initialApp"
             and f = "File ''a.wav''" and i = 0 and d = "Num 3"
             and s = "settings (run [SyncEffect, FileChange (Some (Some [File ''a.wav'']))]
                                  initialApp)"
             and b = "run [SyncEffect, FileChange (Some (Some [File ''a.wav''])), SyncEffect]
                        initialApp"]
  by (simp add: run_defs handler_defs engine_defs pushed_def)

text \<open>
  The claim C4 as stated, for every invocation in the \<open>Ready\<close> state, fails when the load
  is rejected: the invocation ends at the \<^verbatim>\<open>await\<close>, the cutoff of the settings is 1
  and the filter still has its initial 22000.
\<close>

theorem ready_invocation_skips_push_counterexample:
  "state (settings (run [SyncEffect, FilterChange (Single (Num 1)),
                         FileChange (Some (Some [File ''a.wav'']))] initialApp)) = Ready
   \<and> inflight (run [SyncEffect, FilterChange (Single (Num 1)),
                    FileChange (Some (Some [File ''a.wav''])), SyncEffect] initialApp) \<noteq> []
   \<and> inflight (run [SyncEffect, FilterChange (Single (Num 1)),
                    FileChange (Some (Some [File ''a.wav''])), SyncEffect,
                    LoadSettled 0 Rejected] initialApp) = []
   \<and> filterCutoff (settings (run [SyncEffect, FilterChange (Single (Num 1)),
                    FileChange (Some (Some [File ''a.wav''])), SyncEffect,
                    LoadSettled 0 Rejected] initialApp)) = Num 1
   \<and> frequency (engine (run [SyncEffect, FilterChange (Single (Num 1)),
                    FileChange (Some (Some [File ''a.wav''])), SyncEffect,
                    LoadSettled 0 Rejected] initialApp)) = Num 22000
   \<and> calls (engine (run [SyncEffect, FilterChange (Single (Num 1)),
                    FileChange (Some (Some [File ''a.wav''])), SyncEffect,
                    LoadSettled 0 Rejected] initialApp)) = [Chain, Stop, Load (File ''a.wav'')]"
  by (simp add: run_defs handler_defs engine_defs getValueFromScale_def)

text \<open>
  C5, as amended. An invocation of the effect in the \<open>Ready\<close> state that finds a pending
  file \<open>f\<close> hands it to the waveform widget if there is one, stops the player, starts the
  load of \<open>f\<close> and suspends, the settings untouched. When that load resolves with a
  source \<open>d\<close> seconds long, the invocation starts the player, merges \<open>file = f\<close>,
  \<open>nextFile\<close> absent and \<open>duration = d\<close> into the settings of that moment, and sets
  the engine parameters.
\<close>

theorem ready_invocation_loads_next_file:
  "(state (settings a) = Ready \<and> nextFile (settings a) = Some f \<longrightarrow>
      calls (engine (step SyncEffect a)) =
        calls (engine a) @ (if waveform a then [LoadBlob f] else []) @ [Stop, Load f]
      \<and> transport (engine (step SyncEffect a)) = Stopped
      \<and> inflight (step SyncEffect a) = inflight a @ [(settings a, f)]
      \<and> settings (step SyncEffect a) = settings a)
   \<and> (i < length (inflight b) \<and> inflight b ! i = (s, f) \<and> nextFile s = Some f \<longrightarrow>
      buffer (engine (step (LoadSettled i (Resolved d)) b)) = Some (f, d)
      \<and> transport (engine (step (LoadSettled i (Resolved d)) b)) = Started
      \<and> calls (engine (step (LoadSettled i (Resolved d)) b)) =
          calls (engine b) @ [Start, FilterSet (filterCutoff s), PlayerSet (speed s) (loop s)]
      \<and> settings (step (LoadSettled i (Resolved d)) b) =
          (settings b)\<lparr>file' := Some f, nextFile := None, duration := Some d\<rparr>
      \<and> inflight (step (LoadSettled i (Resolved d)) b) =
          take i (inflight b) @ drop (Suc i) (inflight b))"
  by (simp add: syncPlayerSettings_def syncPlayerSettings_resume_def Let_def
        engine_defs set_settings_def mergeSettings_def)

theorem ready_invocation_loads_next_file_witness:
  "state (settings (run [SyncEffect, FileChange (Some (Some [File ''a.wav'']))] initialApp))
       = Ready
   \<and> nextFile (settings (run [SyncEffect, FileChange (Some (Some [File ''a.wav'']))] initialApp))
       = Some (File ''a.wav'')
   \<and> calls (engine (run [SyncEffect, FileChange (Some (Some [File ''a.wav''])), SyncEffect,
                          LoadSettled 0 (Resolved (Num 3))] initialApp))
       = [Chain, Stop, Load (File ''a.wav''), Start, FilterSet (Num 22000), PlayerSet (Num 1) True]
   \<and> settings (run [SyncEffect, FileChange (Some (Some [File ''a.wav''])), SyncEffect,
                          LoadSettled 0 (Resolved (Num 3))] initialApp)
       = (settings (run [SyncEffect] initialApp))
           \<lparr>file' := Some (File ''a.wav''), nextFile := None, duration := Some (Num 3)\<rparr>"
  using ready_invocation_loads_next_file
          [where a = "run [SyncEffect, FileChange (Some (Some [File ''a.wav'']))] initialApp"
             and f = "File ''a.wav''" and i = 0 and d = "Num 3"
             and s = "settings (run [SyncEffect, FileChange (Some (Some [File ''a.wav'']))]
                                  initialApp)"
             and b = "run [SyncEffect, FileChange (Some (Some [File ''a.wav''])), SyncEffect]
                        initialApp"]
  by (simp add: run_defs handler_defs engine_defs)

text \<open>
  The claim C5 as stated, for every invocation that finds a pending file, fails when the
  load is rejected: the player stays stopped and nothing is merged, \<open>nextFile\<close> stays.
\<close>

theorem rejected_load_merges_nothing_counterexample:
  "state (settings (run [SyncEffect, FileChange (Some (Some [File ''a.wav'']))] initialApp))
       = Ready
   \<and> nextFile (settings (run [SyncEffect, FileChange (Some (Some [File ''a.wav'']))] initialApp))
       = Some (File ''a.wav'')
   \<and> inflight (run [SyncEffect, FileChange (Some (Some [File ''a.wav''])), SyncEffect,
                    LoadSettled 0 Rejected] initialApp) = []
   \<and> transport (engine (run [SyncEffect, FileChange (Some (Some [File ''a.wav''])), SyncEffect,
                    LoadSettled 0 Rejected] initialApp)) = Stopped
   \<and> file' (settings (run [SyncEffect, FileChange (Some (Some [File ''a.wav''])), SyncEffect,
                    LoadSettled 0 Rejected] initialApp)) = None
   \<and> nextFile (settings (run [SyncEffect, FileChange (Some (Some [File ''a.wav''])), SyncEffect,
                    LoadSettled 0 Rejected] initialApp)) = Some (File ''a.wav'')
   \<and> duration (settings (run [SyncEffect, FileChange (Some (Some [File ''a.wav''])), SyncEffect,
                    LoadSettled 0 Rejected] initialApp)) = None"
  by (simp add: run_defs handler_defs engine_defs)




section \<open>The range of the cutoff\<close>











end
